theory Spec2Isabelle
  imports Main "HOL-Library.AList"
begin

section \<open>The sample application's configuration holder\<close>

text \<open>
  The module \<^verbatim>\<open>package/config.py\<close> of the All-In-AWS-Infrastructure-Basic example
  declares one class, \<^verbatim>\<open>AppConfig\<close>, whose \<^verbatim>\<open>__init__\<close> assigns six attributes of
  \<^verbatim>\<open>self\<close>, and one module-level name, \<^verbatim>\<open>config\<close>, bound to \<^verbatim>\<open>AppConfig()\<close>.

  The embedding keeps Python's object model where the properties depend on it: an instance
  is its attribute dictionary, an assignment \<^verbatim>\<open>self.x = v\<close> is an update of that
  dictionary, a read \<^verbatim>\<open>obj.x\<close> is a lookup that raises \<^verbatim>\<open>AttributeError\<close> on a missing
  name, and a call of the class allocates a new object in the store and runs
  \<^verbatim>\<open>__init__\<close> on it.
\<close>

subsection \<open>Values\<close>

text \<open>
  Modelled from the spec: the enumeration \<^verbatim>\<open>MongoDbSsplLicenseAcceptance\<close> is imported
  from \<^verbatim>\<open>aws_rfdk\<close> and its declaration is not among the sources. The spec gives it two
  values, accepted and rejected; the source names them \<^verbatim>\<open>USER_ACCEPTS_SSPL\<close> (in the
  comment above the assignment) and \<^verbatim>\<open>USER_REJECTS_SSPL\<close> (in the assignment).
\<close>

datatype MongoDbSsplLicenseAcceptance = USER_REJECTS_SSPL | USER_ACCEPTS_SSPL

text \<open>
  Modelled from the spec: the class \<^verbatim>\<open>UsageBasedLicense\<close> is imported from
  \<^verbatim>\<open>aws_rfdk.deadline\<close> and its declaration is not among the sources. The spec calls its
  instances license-descriptor values and says nothing of their structure; the source
  never builds or inspects one. A descriptor is known here by an identifier only.
\<close>

datatype UsageBasedLicense = UsageBasedLicense nat

text \<open>
  The Python values that the module can hold in an attribute. A dictionary is an
  association list in insertion order with distinct keys, as a Python \<^verbatim>\<open>dict\<close> is.
\<close>

datatype pyval =
    PyNone
  | PyBool bool
  | PyStr string
  | PyDict "(pyval \<times> pyval) list"
  | PyList "pyval list"
  | PySspl MongoDbSsplLicenseAcceptance
  | PyUbl UsageBasedLicense

text \<open>
  A dictionary display \<^verbatim>\<open>{k1: v1, ..., kn: vn}\<close> inserts its items from left to right into
  an empty dictionary; a later item with an equal key replaces the value of the earlier one
  and keeps its position.
\<close>

definition dict_display :: "(pyval \<times> pyval) list \<Rightarrow> pyval" where
  "dict_display items = PyDict (foldl (\<lambda>d (k, v). AList.update k v d) [] items)"

text \<open>
  The exceptions of the operations below. \<open>InvalidReference\<close> is not a Python
  exception: it is what the model returns for an index outside the store.
\<close>

datatype error = AttributeError string | TypeError | KeyError pyval | InvalidReference nat

text \<open>\<^verbatim>\<open>len(v)\<close>: the number of entries of a dictionary, of elements of a list, of
  characters of a string; the other values have no length.\<close>

fun len :: "pyval \<Rightarrow> error + nat" where
  "len (PyDict kvs) = Inr (length kvs)"
| "len (PyList xs) = Inr (length xs)"
| "len (PyStr s) = Inr (length s)"
| "len _ = Inl TypeError"

text \<open>\<^verbatim>\<open>list(v.items())\<close>: the entries of a dictionary in order; only a dictionary has
  the method.\<close>

fun items :: "pyval \<Rightarrow> error + (pyval \<times> pyval) list" where
  "items (PyDict kvs) = Inr kvs"
| "items _ = Inl (AttributeError ''items'')"

text \<open>\<^verbatim>\<open>d[k]\<close> on a dictionary: the value bound to the key, \<^verbatim>\<open>KeyError\<close> when there
  is none.\<close>

fun getitem :: "pyval \<Rightarrow> pyval \<Rightarrow> error + pyval" where
  "getitem (PyDict kvs) k =
     (case map_of kvs k of None \<Rightarrow> Inl (KeyError k) | Some v \<Rightarrow> Inr v)"
| "getitem _ k = Inl TypeError"

subsection \<open>Type annotations\<close>

text \<open>
  The annotations that occur in the class: \<^verbatim>\<open>str\<close>, \<^verbatim>\<open>bool\<close>, \<^verbatim>\<open>Mapping[K, V]\<close>,
  \<^verbatim>\<open>List[T]\<close>, \<^verbatim>\<open>Optional[T]\<close> and the two imported classes. Python does not check
  them at run time; \<open>has_type\<close> is the check a type checker would make of a value.
\<close>

datatype pytype =
    TStr
  | TBool
  | TMapping pytype pytype
  | TList pytype
  | TOptional pytype
  | TMongoDbSsplLicenseAcceptance
  | TUsageBasedLicense

fun has_type :: "pytype \<Rightarrow> pyval \<Rightarrow> bool" where
  "has_type TStr v = (case v of PyStr s \<Rightarrow> True | _ \<Rightarrow> False)"
| "has_type TBool v = (case v of PyBool b \<Rightarrow> True | _ \<Rightarrow> False)"
| "has_type (TMapping tk tv) v =
     (case v of PyDict kvs \<Rightarrow> list_all (\<lambda>(k, x). has_type tk k \<and> has_type tv x) kvs
      | _ \<Rightarrow> False)"
| "has_type (TList t) v =
     (case v of PyList xs \<Rightarrow> list_all (has_type t) xs | _ \<Rightarrow> False)"
| "has_type (TOptional t) v = (v = PyNone \<or> has_type t v)"
| "has_type TMongoDbSsplLicenseAcceptance v = (case v of PySspl a \<Rightarrow> True | _ \<Rightarrow> False)"
| "has_type TUsageBasedLicense v = (case v of PyUbl l \<Rightarrow> True | _ \<Rightarrow> False)"

subsection \<open>Objects and the store\<close>

text \<open>
  An instance of a plain class is its \<^verbatim>\<open>__dict__\<close>: attribute names and their values, in
  the order of first assignment. The class itself has no data attribute, so a read of a
  data attribute is decided by the instance dictionary alone.
\<close>

type_synonym pyobj = "(string \<times> pyval) list"

definition setattr :: "pyobj \<Rightarrow> string \<Rightarrow> pyval \<Rightarrow> pyobj" where
  "setattr self name v = AList.update name v self"

definition getattr :: "pyobj \<Rightarrow> string \<Rightarrow> error + pyval" where
  "getattr self name =
     (case map_of self name of None \<Rightarrow> Inl (AttributeError name) | Some v \<Rightarrow> Inr v)"

text \<open>
  The store holds the objects created so far; a reference is an index into it. Python has
  no dangling reference, the model has to say what a read through one gives.
\<close>

type_synonym heap = "pyobj list"

definition deref :: "heap \<Rightarrow> nat \<Rightarrow> error + pyobj" where
  "deref h r = (if r < length h then Inr (h ! r) else Inl (InvalidReference r))"

definition load_attr :: "heap \<Rightarrow> nat \<Rightarrow> string \<Rightarrow> error + pyval" where
  "load_attr h r name =
     (case deref h r of Inl e \<Rightarrow> Inl e | Inr obj \<Rightarrow> getattr obj name)"

subsection \<open>The class AppConfig and the module\<close>

text \<open>
  \<^verbatim>\<open>AppConfig.__init__(self)\<close>: six assignments to attributes of \<^verbatim>\<open>self\<close>, in the order
  of the source, each with the literal of the source. The method mutates \<^verbatim>\<open>self\<close>; the
  model takes the object and returns it updated.
\<close>

definition AppConfig_init :: "pyobj \<Rightarrow> pyobj" where
  "AppConfig_init self =
    (let self = setattr self ''deadline_client_linux_ami_map''
                  (dict_display [(PyStr ''region'', PyStr ''ami-id'')]);
         self = setattr self ''ubl_certificate_secret_arn'' (PyStr '''');
         self = setattr self ''ubl_licenses'' (PyList []);
         self = setattr self ''key_pair_name'' (PyStr '''');
         self = setattr self ''deploy_mongo_db'' (PyBool False);
         self = setattr self ''accept_sspl_license'' (PySspl USER_REJECTS_SSPL)
     in self)"

text \<open>The annotations written on the six assignments, in the order of the source.\<close>

definition AppConfig_annotations :: "(string \<times> pytype) list" where
  "AppConfig_annotations =
    [(''deadline_client_linux_ami_map'', TMapping TStr TStr),
     (''ubl_certificate_secret_arn'', TStr),
     (''ubl_licenses'', TList TUsageBasedLicense),
     (''key_pair_name'', TOptional TStr),
     (''deploy_mongo_db'', TBool),
     (''accept_sspl_license'', TMongoDbSsplLicenseAcceptance)]"

text \<open>
  The call \<^verbatim>\<open>AppConfig()\<close>: a new object with an empty \<^verbatim>\<open>__dict__\<close> is created,
  \<^verbatim>\<open>__init__\<close> runs on it, and the call returns the reference to it. The object is stored
  at the next free index of the store.
\<close>

definition AppConfig_call :: "heap \<Rightarrow> nat \<times> heap" where
  "AppConfig_call h = (length h, h @ [AppConfig_init []])"

text \<open>
  The module body, after the imports and the class statement, is the one statement
  \<^verbatim>\<open>config: AppConfig = AppConfig()\<close>. Running it in a store gives the module's namespace,
  which binds \<^verbatim>\<open>config\<close> to the new reference, and the store after the call.
\<close>

type_synonym namespace = "(string \<times> nat) list"

definition module_body :: "heap \<Rightarrow> namespace \<times> heap" where
  "module_body h = (let (r, h') = AppConfig_call h in ([(''config'', r)], h'))"

text \<open>The attribute \<^verbatim>\<open>config\<close> of the loaded module, read in the store after loading.\<close>

definition config :: "heap \<Rightarrow> error + nat" where
  "config h =
     (case map_of (fst (module_body h)) ''config'' of
        None \<Rightarrow> Inl (AttributeError ''config'')
      | Some r \<Rightarrow> Inr r)"

section \<open>Properties\<close>

subsection \<open>What the constructor builds\<close>

text \<open>
  Run on a new, empty object, \<open>AppConfig_init\<close> leaves six attributes, in the order of
  the assignments.
\<close>

lemma AppConfig_init_Nil:
  "AppConfig_init [] =
    [(''deadline_client_linux_ami_map'', PyDict [(PyStr ''region'', PyStr ''ami-id'')]),
     (''ubl_certificate_secret_arn'', PyStr ''''),
     (''ubl_licenses'', PyList []),
     (''key_pair_name'', PyStr ''''),
     (''deploy_mongo_db'', PyBool False),
     (''accept_sspl_license'', PySspl USER_REJECTS_SSPL)]"
  by (simp add: AppConfig_init_def setattr_def dict_display_def)

text \<open>The call returns a reference that the store before the call does not hold and the
  store after it does.\<close>

lemma AppConfig_call_fresh:
  "fst (AppConfig_call h) = length h"
  "fst (AppConfig_call h) < length (snd (AppConfig_call h))"
  by (simp_all add: AppConfig_call_def)

lemma deref_AppConfig_call:
  "deref (snd (AppConfig_call h)) (fst (AppConfig_call h)) = Inr (AppConfig_init [])"
  by (simp add: AppConfig_call_def deref_def)

lemma load_attr_AppConfig_call:
  "load_attr (snd (AppConfig_call h)) (fst (AppConfig_call h)) name =
   getattr (AppConfig_init []) name"
  by (simp add: load_attr_def deref_AppConfig_call)

text \<open>A call leaves the objects that exist already as they are.\<close>

lemma AppConfig_call_preserves:
  assumes "r < length h"
  shows "deref (snd (AppConfig_call h)) r = deref h r"
    and "load_attr (snd (AppConfig_call h)) r name = load_attr h r name"
proof -
  from assms show "deref (snd (AppConfig_call h)) r = deref h r"
    by (simp add: AppConfig_call_def deref_def nth_append)
  then show "load_attr (snd (AppConfig_call h)) r name = load_attr h r name"
    by (simp add: load_attr_def)
qed

text \<open>
  A read after an assignment: the assigned value for the assigned name, the old result for
  any other name. With it, \<^verbatim>\<open>__init__\<close> gives the six attributes the same values
  whatever the object held before.
\<close>

lemma getattr_setattr:
  "getattr (setattr self n v) m = (if m = n then Inr v else getattr self m)"
  by (simp add: getattr_def setattr_def update_conv')

lemma AppConfig_init_overwrites:
  "map (getattr (AppConfig_init self)) (map fst AppConfig_annotations) =
   map (getattr (AppConfig_init [])) (map fst AppConfig_annotations)"
  by (simp add: AppConfig_init_def AppConfig_annotations_def Let_def getattr_setattr)

text \<open>The module binds \<^verbatim>\<open>config\<close> to the reference that the call returned.\<close>

lemma config_ref: "config h = Inr (fst (AppConfig_call h))"
  by (simp add: config_def module_body_def case_prod_beta)

lemma module_body_heap: "snd (module_body h) = snd (AppConfig_call h)"
  by (simp add: module_body_def case_prod_beta)

text \<open>
  The checks below can fail: a name that \<^verbatim>\<open>__init__\<close> does not assign raises
  \<^verbatim>\<open>AttributeError\<close>, and \<open>has_type\<close> rejects a value of another type.
\<close>

lemma getattr_unassigned:
  "getattr (AppConfig_init []) ''region'' = Inl (AttributeError ''region'')"
  by (simp add: AppConfig_init_Nil getattr_def)

lemma has_type_rejects:
  "\<not> has_type (TOptional TStr) (PyBool False)"
  "\<not> has_type (TMapping TStr TStr) (PyDict [(PyStr ''region'', PyNone)])"
  "\<not> has_type (TList TUsageBasedLicense) (PyList [PyStr ''maya''])"
  by simp_all

subsection \<open>The claims\<close>

text \<open>
  C1. In every store, the object that \<^verbatim>\<open>AppConfig()\<close> returns has exactly six attributes:
  their names are the six annotated names, in the order of the source, and the value of
  each has the type of its annotation (a mapping from strings to strings, a string, a list
  of licenses, an optional string, a boolean, a license acceptance).
\<close>

theorem AppConfig_exposes_six_typed_fields:
  "case AppConfig_call h of (r, h') \<Rightarrow>
     (case deref h' r of
        Inl e \<Rightarrow> False
      | Inr obj \<Rightarrow>
          length obj = 6 \<and>
          map fst obj = map fst AppConfig_annotations \<and>
          list_all2 (\<lambda>(name, t) (name', v). name' = name \<and> has_type t v)
            AppConfig_annotations obj)"
proof -
  have "deref (snd (AppConfig_call h)) (fst (AppConfig_call h)) = Inr (AppConfig_init [])"
    by (rule deref_AppConfig_call)
  moreover have "length (AppConfig_init []) = 6"
    by (simp add: AppConfig_init_Nil)
  moreover have "map fst (AppConfig_init []) = map fst AppConfig_annotations"
    by (simp add: AppConfig_init_Nil AppConfig_annotations_def)
  moreover have "list_all2 (\<lambda>(name, t) (name', v). name' = name \<and> has_type t v)
      AppConfig_annotations (AppConfig_init [])"
    by (simp add: AppConfig_init_Nil AppConfig_annotations_def)
  ultimately show ?thesis
    by (simp add: case_prod_beta)
qed

text \<open>
  C2. In every store, \<^verbatim>\<open>AppConfig().deploy_mongo_db\<close> is \<^verbatim>\<open>False\<close>: the backend
  that is not MongoDB is the default.
\<close>

theorem default_deploy_mongo_db:
  "(case AppConfig_call h of (r, h') \<Rightarrow> load_attr h' r ''deploy_mongo_db'')
     = Inr (PyBool False)"
  using load_attr_AppConfig_call [of h "''deploy_mongo_db''"]
  by (simp add: case_prod_beta AppConfig_init_Nil getattr_def)

text \<open>
  C3. In every store, \<^verbatim>\<open>AppConfig().accept_sspl_license\<close> is
  \<^verbatim>\<open>MongoDbSsplLicenseAcceptance.USER_REJECTS_SSPL\<close>.
\<close>

theorem default_accept_sspl_license:
  "(case AppConfig_call h of (r, h') \<Rightarrow> load_attr h' r ''accept_sspl_license'')
     = Inr (PySspl USER_REJECTS_SSPL)"
  using load_attr_AppConfig_call [of h "''accept_sspl_license''"]
  by (simp add: case_prod_beta AppConfig_init_Nil getattr_def)

text \<open>
  C4. In every store, \<^verbatim>\<open>AppConfig().deadline_client_linux_ami_map\<close> is read without
  error and \<^verbatim>\<open>len\<close> of it is 1: the mapping has exactly one entry.
\<close>

theorem default_ami_map_one_entry:
  "case AppConfig_call h of (r, h') \<Rightarrow>
     (case load_attr h' r ''deadline_client_linux_ami_map'' of
        Inl e \<Rightarrow> False
      | Inr d \<Rightarrow> len d = Inr 1)"
proof -
  have "getattr (AppConfig_init []) ''deadline_client_linux_ami_map'' =
      Inr (PyDict [(PyStr ''region'', PyStr ''ami-id'')])"
    by (simp add: AppConfig_init_Nil getattr_def)
  then show ?thesis
    by (simp add: case_prod_beta load_attr_AppConfig_call)
qed

text \<open>
  C5. In every store, \<^verbatim>\<open>AppConfig().ubl_licenses\<close> is the empty list.
\<close>

theorem default_ubl_licenses_empty:
  "(case AppConfig_call h of (r, h') \<Rightarrow> load_attr h' r ''ubl_licenses'') = Inr (PyList [])"
  using load_attr_AppConfig_call [of h "''ubl_licenses''"]
  by (simp add: case_prod_beta AppConfig_init_Nil getattr_def)

text \<open>
  C6. In every store, the call \<^verbatim>\<open>AppConfig()\<close> returns (\<open>AppConfig_call\<close> is a total
  function with no error result) a reference to an object of the store after the call,
  and the read of each of the six attributes through it returns a value: neither
  \<^verbatim>\<open>AttributeError\<close> nor an invalid reference occurs.
\<close>

theorem default_construction_and_reads_succeed:
  "case AppConfig_call h of (r, h') \<Rightarrow>
     (\<exists>obj. deref h' r = Inr obj) \<and>
     (\<exists>v. load_attr h' r ''deadline_client_linux_ami_map'' = Inr v) \<and>
     (\<exists>v. load_attr h' r ''ubl_certificate_secret_arn'' = Inr v) \<and>
     (\<exists>v. load_attr h' r ''ubl_licenses'' = Inr v) \<and>
     (\<exists>v. load_attr h' r ''key_pair_name'' = Inr v) \<and>
     (\<exists>v. load_attr h' r ''deploy_mongo_db'' = Inr v) \<and>
     (\<exists>v. load_attr h' r ''accept_sspl_license'' = Inr v)"
proof -
  obtain r h' where call: "AppConfig_call h = (r, h')"
    by (cases "AppConfig_call h")
  with deref_AppConfig_call [of h] have obj: "deref h' r = Inr (AppConfig_init [])"
    by simp
  then have rd: "load_attr h' r name = getattr (AppConfig_init []) name" for name
    by (simp add: load_attr_def)
  show ?thesis
    unfolding call by (simp add: obj rd AppConfig_init_Nil getattr_def)
qed

text \<open>
  C7. Construction is deterministic. (a) For any two stores, the instances that
  \<^verbatim>\<open>AppConfig()\<close> returns in them give equal results for the reads of the six
  attributes, and each of these reads returns a value. (b) Two instances built one after
  the other in the same store are two objects, and read in the final store they give equal
  results for the six attributes. (c) The instance bound to \<^verbatim>\<open>config\<close> when the module
  is loaded gives the same six results as an instance built in any store, and (d) as one
  built after the load, both read in the store after that.
\<close>

theorem AppConfig_construction_deterministic:
  "(case AppConfig_call h1 of (r1, g1) \<Rightarrow> case AppConfig_call h2 of (r2, g2) \<Rightarrow>
      map (load_attr g1 r1) (map fst AppConfig_annotations) =
        map (load_attr g2 r2) (map fst AppConfig_annotations) \<and>
      list_all (\<lambda>x. case x of Inl e \<Rightarrow> False | Inr v \<Rightarrow> True)
        (map (load_attr g1 r1) (map fst AppConfig_annotations))) \<and>
   (case AppConfig_call h1 of (r1, g1) \<Rightarrow> case AppConfig_call g1 of (r2, g2) \<Rightarrow>
      r1 \<noteq> r2 \<and>
      map (load_attr g2 r1) (map fst AppConfig_annotations) =
        map (load_attr g2 r2) (map fst AppConfig_annotations)) \<and>
   (case module_body h1 of (ns, g1) \<Rightarrow> case AppConfig_call h2 of (r2, g2) \<Rightarrow>
      (case config h1 of
         Inl e \<Rightarrow> False
       | Inr c \<Rightarrow>
           map (load_attr g1 c) (map fst AppConfig_annotations) =
             map (load_attr g2 r2) (map fst AppConfig_annotations))) \<and>
   (case module_body h1 of (ns, g1) \<Rightarrow> case AppConfig_call g1 of (r2, g2) \<Rightarrow>
      (case config h1 of
         Inl e \<Rightarrow> False
       | Inr c \<Rightarrow>
           c \<noteq> r2 \<and>
           map (load_attr g2 c) (map fst AppConfig_annotations) =
             map (load_attr g2 r2) (map fst AppConfig_annotations)))"
proof -
  let ?names = "map fst AppConfig_annotations"
  let ?r1 = "fst (AppConfig_call h1)" and ?g1 = "snd (AppConfig_call h1)"
  let ?r2 = "fst (AppConfig_call h2)" and ?g2 = "snd (AppConfig_call h2)"
  let ?r3 = "fst (AppConfig_call ?g1)" and ?g3 = "snd (AppConfig_call ?g1)"
  have fresh: "load_attr (snd (AppConfig_call h)) (fst (AppConfig_call h)) =
      getattr (AppConfig_init [])" for h
    by (rule ext) (rule load_attr_AppConfig_call)
  have kept: "load_attr ?g3 ?r1 = load_attr ?g1 ?r1"
    by (rule ext) (rule AppConfig_call_preserves(2), rule AppConfig_call_fresh(2))
  have a: "map (load_attr ?g1 ?r1) ?names = map (load_attr ?g2 ?r2) ?names"
    by (simp only: fresh)
  have ok: "list_all (\<lambda>x. case x of Inl e \<Rightarrow> False | Inr v \<Rightarrow> True)
      (map (load_attr ?g1 ?r1) ?names)"
    by (simp add: fresh AppConfig_annotations_def AppConfig_init_Nil getattr_def)
  have distinct: "?r1 \<noteq> ?r3"
    using AppConfig_call_fresh(2) [of h1] by (simp add: AppConfig_call_fresh(1))
  have b: "map (load_attr ?g3 ?r1) ?names = map (load_attr ?g3 ?r3) ?names"
    by (simp only: kept fresh)
  show ?thesis
    using a ok distinct b
    by (simp add: case_prod_beta config_ref module_body_heap)
qed

text \<open>
  C8. In every store, \<^verbatim>\<open>AppConfig().key_pair_name\<close> is the empty string and is not
  \<^verbatim>\<open>None\<close>, although the annotation of the attribute is \<^verbatim>\<open>Optional[str]\<close>, a type
  that \<^verbatim>\<open>None\<close> has.
\<close>

theorem default_key_pair_name_empty_string:
  "case AppConfig_call h of (r, h') \<Rightarrow>
     load_attr h' r ''key_pair_name'' = Inr (PyStr '''') \<and>
     load_attr h' r ''key_pair_name'' \<noteq> Inr PyNone \<and>
     map_of AppConfig_annotations ''key_pair_name'' = Some (TOptional TStr) \<and>
     has_type (TOptional TStr) PyNone"
  using load_attr_AppConfig_call [of h "''key_pair_name''"]
  by (simp add: case_prod_beta AppConfig_init_Nil getattr_def AppConfig_annotations_def)

text \<open>
  C9. In every store, \<^verbatim>\<open>AppConfig().ubl_certificate_secret_arn\<close> is the empty string.
\<close>

theorem default_ubl_certificate_secret_arn_empty:
  "(case AppConfig_call h of (r, h') \<Rightarrow> load_attr h' r ''ubl_certificate_secret_arn'')
     = Inr (PyStr '''')"
  using load_attr_AppConfig_call [of h "''ubl_certificate_secret_arn''"]
  by (simp add: case_prod_beta AppConfig_init_Nil getattr_def)

text \<open>
  C10. In every store, the entries of \<^verbatim>\<open>AppConfig().deadline_client_linux_ami_map\<close> are
  the one pair of the key \<^verbatim>\<open>'region'\<close> and the value \<^verbatim>\<open>'ami-id'\<close>, and the lookup of
  \<^verbatim>\<open>'region'\<close> in it gives \<^verbatim>\<open>'ami-id'\<close>.
\<close>

theorem default_ami_map_placeholder_entry:
  "case AppConfig_call h of (r, h') \<Rightarrow>
     (case load_attr h' r ''deadline_client_linux_ami_map'' of
        Inl e \<Rightarrow> False
      | Inr d \<Rightarrow>
          items d = Inr [(PyStr ''region'', PyStr ''ami-id'')] \<and>
          getitem d (PyStr ''region'') = Inr (PyStr ''ami-id''))"
proof (cases "AppConfig_call h")
  case (Pair r h')
  with load_attr_AppConfig_call [of h "''deadline_client_linux_ami_map''"]
  have "load_attr h' r ''deadline_client_linux_ami_map'' =
      Inr (PyDict [(PyStr ''region'', PyStr ''ami-id'')])"
    by (simp add: AppConfig_init_Nil getattr_def)
  with Pair show ?thesis
    by simp
qed

end
